theory Spec2Isabelle
  imports Main
begin

section \<open>JavaScript values, objects and errors\<close>

text \<open>
  The engine of \<^verbatim>\<open>src/js/engine/record-engine.js\<close> works on JavaScript objects that
  live on a heap and are shared by reference. A value is a primitive or a reference to a
  heap object; the only numbers the engine produces are epoch milliseconds, which are
  integers.
\<close>

datatype jsval =
    Undefined
  | Null
  | Bool bool
  | Num int
  | Str string
  | DateV int
  | Ref nat

text \<open>
  Errors are values that are thrown. \<^verbatim>\<open>e instanceof TypeError\<close> is the only test the
  engine makes on one.
\<close>

datatype js_error = TypeError string | OtherError string

fun instanceof_TypeError :: "js_error \<Rightarrow> bool" where
  "instanceof_TypeError (TypeError m) = True"
| "instanceof_TypeError (OtherError m) = False"

text \<open>
  The constructor chain of a heap object: \<^verbatim>\<open>File\<close> extends \<^verbatim>\<open>Blob\<close>, so a file is an
  instance of both.
\<close>

datatype obj_class = BlobC | FileC | PlainC

text \<open>
  What an assignment \<^verbatim>\<open>obj.p = v\<close> does in strict code (the file is an ES module,
  and a class body is strict): a writable property stores the value; a getter-only
  property raises a TypeError; so does a property that cannot be written or added
  because the object is frozen, sealed or not extensible, or the property is read-only;
  and an accessor with a setter of its own may raise whatever the setter raises.
\<close>

datatype prop_mode = Writable | GetterOnly | NotWritable | SetterThrows js_error

record jsobj =
  cls :: obj_class
  mime_type :: string
  props :: "string \<rightharpoonup> jsval"
  setter :: "string \<Rightarrow> prop_mode"

text \<open>The effects a caller, a listener or the platform can observe, in the order they occur.\<close>

datatype effect =
    PropWrite nat string jsval
  | RevokeObjectURL jsval
  | Trigger string
  | MsSaveOrOpenBlob jsval "string option"
  | MsSaveBlob jsval "string option"
  | CreateElement string nat
  | CreateObjectURL jsval string
  | AppendChild nat
  | Click nat
  | DispatchEvent nat string

text \<open>An anchor element of the document, with the attributes \<^verbatim>\<open>saveAs\<close> sets.\<close>

record anchor =
  href :: string
  download :: string
  style :: string
  target :: string
  in_document :: bool

text \<open>
  The world an engine runs in: the heap, the engine's \<^verbatim>\<open>recordedData\<close> field, the
  effects so far, and the platform: the elements created in the document, the number of
  object URLs issued, the legacy save functions of \<^verbatim>\<open>navigator\<close> when the platform
  has them (\<open>None\<close> when \<^verbatim>\<open>typeof\<close> gives \<^verbatim>\<open>'undefined'\<close>) and whether an anchor's
  \<^verbatim>\<open>click\<close> is a function.
\<close>

record world =
  heap :: "nat \<rightharpoonup> jsobj"
  recordedData :: jsval
  trace :: "effect list"
  elements :: "anchor list"
  issued_urls :: nat
  msSaveOrOpenBlob :: "(jsval \<Rightarrow> string option \<Rightarrow> jsval) option"
  msSaveBlob :: "(jsval \<Rightarrow> string option \<Rightarrow> jsval) option"
  click_is_function :: bool

text \<open>
  A call either returns a result or raises an error; in both cases the mutations made so
  far stay in the world.
\<close>

datatype 'a outcome = Returned 'a world | Raised js_error world

fun bind :: "'a outcome \<Rightarrow> ('a \<Rightarrow> world \<Rightarrow> 'b outcome) \<Rightarrow> 'b outcome" where
  "bind (Returned x w) f = f x w"
| "bind (Raised e w) f = Raised e w"

section \<open>String primitives\<close>

text \<open>
  \<^verbatim>\<open>s.split(c)\<close> for a one-character separator: the pieces between the occurrences
  of \<open>c\<close>. The result is never empty (the empty string splits into one empty piece).
\<close>

fun js_split :: "char \<Rightarrow> string \<Rightarrow> string list" where
  "js_split c [] = [[]]"
| "js_split c (x # xs) =
     (if x = c then [] # js_split c xs
      else (case js_split c xs of
              [] \<Rightarrow> [[x]]
            | y # ys \<Rightarrow> (x # y) # ys))"

text \<open>\<^verbatim>\<open>xs[i]\<close> on an array of strings: \<^verbatim>\<open>undefined\<close> (here \<open>None\<close>) out of range.\<close>

definition js_index :: "string list \<Rightarrow> nat \<Rightarrow> string option" where
  "js_index xs i = (if i < length xs then Some (xs ! i) else None)"

text \<open>
  String concatenation converts its operand to a string: \<^verbatim>\<open>'.' + undefined\<close> is
  \<^verbatim>\<open>'.undefined'\<close>.
\<close>

fun to_string :: "string option \<Rightarrow> string" where
  "to_string None = ''undefined''"
| "to_string (Some s) = s"

text \<open>A number in decimal, as \<^verbatim>\<open>n + str\<close> renders an integer below \<open>10^21\<close>.\<close>

definition digit_char :: "nat \<Rightarrow> char" where
  "digit_char d = ''0123456789'' ! d"

fun digits_of :: "nat \<Rightarrow> string" where
  "digits_of n = (if n < 10 then [digit_char n] else digits_of (n div 10) @ [digit_char (n mod 10)])"

declare digits_of.simps [simp del]

definition number_to_string :: "int \<Rightarrow> string" where
  "number_to_string i = (if i < 0 then CHR ''-'' # digits_of (nat (- i)) else digits_of (nat i))"

section \<open>addFileInfo\<close>

text \<open>
  \<^verbatim>\<open>
  let fileExtension = '.' + fileObj.type.split('/')[1];
  if (fileExtension.indexOf(';') > -1) {
      fileExtension = fileExtension.split(';')[0];
  }
  \<close>
  The first piece of a split always exists, so \<open>hd\<close> reads it.
\<close>

definition fileExtension :: "string \<Rightarrow> string" where
  "fileExtension ty =
     (let ext = ''.'' @ to_string (js_index (js_split CHR ''/'' ty) 1)
      in if CHR '';'' \<in> set ext then hd (js_split CHR '';'' ext) else ext)"

definition instanceof_Blob :: "world \<Rightarrow> jsval \<Rightarrow> bool" where
  "instanceof_Blob w v =
     (case v of
        Ref r \<Rightarrow> (case heap w r of
                   Some ob \<Rightarrow> cls ob = BlobC \<or> cls ob = FileC
                 | None \<Rightarrow> False)
      | _ \<Rightarrow> False)"

definition instanceof_File :: "world \<Rightarrow> jsval \<Rightarrow> bool" where
  "instanceof_File w v =
     (case v of
        Ref r \<Rightarrow> (case heap w r of
                   Some ob \<Rightarrow> cls ob = FileC
                 | None \<Rightarrow> False)
      | _ \<Rightarrow> False)"

text \<open>The error an assignment to a property of the given kind raises, if any.\<close>

fun raised_by :: "prop_mode \<Rightarrow> js_error option" where
  "raised_by Writable = None"
| "raised_by GetterOnly = Some (TypeError ''Cannot set property which has only a getter'')"
| "raised_by NotWritable = Some (TypeError ''Cannot assign to read only property'')"
| "raised_by (SetterThrows e) = Some e"

text \<open>
  The assignment \<^verbatim>\<open>obj.p = v\<close> on the object at \<open>r\<close>. The engine assigns only
  after an \<^verbatim>\<open>instanceof\<close> test has found the object; a reference to nothing is
  treated as an assignment on \<^verbatim>\<open>undefined\<close>, which raises a TypeError.
\<close>

definition put_prop :: "nat \<Rightarrow> string \<Rightarrow> jsval \<Rightarrow> world \<Rightarrow> unit outcome" where
  "put_prop r p v w =
     (case heap w r of
        None \<Rightarrow> Raised (TypeError ''Cannot set properties of undefined'') w
      | Some ob \<Rightarrow>
          (case raised_by (setter ob p) of
             Some e \<Rightarrow> Raised e w
           | None \<Rightarrow>
               Returned ()
                 (w\<lparr>heap := (heap w)(r \<mapsto> ob\<lparr>props := (props ob)(p \<mapsto> v)\<rparr>),
                    trace := trace w @ [PropWrite r p v]\<rparr>)))"

text \<open>
  \<^verbatim>\<open>
  try { ... } catch (e) {
      if (e instanceof TypeError) { /* ignore */ } else { throw e; }
  }
  \<close>
\<close>

fun catch_TypeError :: "unit outcome \<Rightarrow> unit outcome" where
  "catch_TypeError (Returned u w) = Returned u w"
| "catch_TypeError (Raised e w) = (if instanceof_TypeError e then Returned () w else Raised e w)"

text \<open>
  \<open>now\<close> is the clock reading of \<^verbatim>\<open>new Date()\<close>, in epoch milliseconds; both
  \<^verbatim>\<open>now.getTime()\<close> calls read the same date object. The type is read after the
  first try block, from the object the \<^verbatim>\<open>instanceof\<close> test found.
\<close>

definition addFileInfo :: "int \<Rightarrow> jsval \<Rightarrow> world \<Rightarrow> unit outcome" where
  "addFileInfo now fileObj w =
     (if instanceof_Blob w fileObj \<or> instanceof_File w fileObj then
        (case fileObj of
           Ref r \<Rightarrow>
             bind
               (catch_TypeError
                  (bind (put_prop r ''lastModified'' (Num now) w)
                     (\<lambda>_. put_prop r ''lastModifiedDate'' (DateV now))))
               (\<lambda>_ w1.
                  catch_TypeError
                    (put_prop r ''name''
                       (Str (number_to_string now @
                          fileExtension (case heap w1 r of Some ob \<Rightarrow> mime_type ob | None \<Rightarrow> [])))
                       w1))
         | _ \<Rightarrow> Returned () w)
      else Returned () w)"

text \<open>
  The error, if any, that the body of the first try block raises: its two assignments
  run in order, and the second is not reached when the first raises.
\<close>

definition first_block_error :: "jsobj \<Rightarrow> js_error option" where
  "first_block_error ob =
     (case raised_by (setter ob ''lastModified'') of
        Some e \<Rightarrow> Some e
      | None \<Rightarrow> raised_by (setter ob ''lastModifiedDate''))"

section \<open>dispose and onStopRecording\<close>

definition dispose :: "world \<Rightarrow> unit outcome" where
  "dispose w =
     (if recordedData w \<noteq> Undefined
      then Returned () (w\<lparr>trace := trace w @ [RevokeObjectURL (recordedData w)]\<rparr>)
      else Returned () w)"

text \<open>\<^verbatim>\<open>this.trigger(ev)\<close> of the evented mixin: every listener of \<open>ev\<close> observes it once.\<close>

definition trigger :: "string \<Rightarrow> world \<Rightarrow> unit outcome" where
  "trigger ev w = Returned () (w\<lparr>trace := trace w @ [Trigger ev]\<rparr>)"

definition onStopRecording :: "int \<Rightarrow> jsval \<Rightarrow> world \<Rightarrow> unit outcome" where
  "onStopRecording now data w =
     (let w0 = w\<lparr>recordedData := data\<rparr>
      in bind (addFileInfo now (recordedData w0) w0)
           (\<lambda>_ w1. bind (dispose w1)
              (\<lambda>_ w2. trigger ''recordComplete'' w2)))"

section \<open>The constructor\<close>

text \<open>
  The options are absent, or an object: the key/value store of player options, with
  what an assignment to each of its properties does (a frozen bag refuses every
  assignment). The base constructor \<^verbatim>\<open>Component\<close> belongs to video.js: it is a
  parameter \<open>super\<close>, which receives the player and the options and gives the component
  or raises.
  \<^verbatim>\<open>
  constructor(player, options) {
      options.evented = true;
      super(player, options);
  }
  \<close>
  The result is the outcome of the construction and the options as the caller sees them
  afterwards. An error of the assignment leaves the constructor, and \<open>super\<close> is not
  reached.
\<close>

record bag =
  entries :: "string \<rightharpoonup> jsval"
  entry_mode :: "string \<Rightarrow> prop_mode"

datatype options_arg = OptUndefined | OptNull | OptBag bag

definition constructor ::
  "('p \<Rightarrow> bag \<Rightarrow> js_error + 'c) \<Rightarrow> 'p \<Rightarrow> options_arg \<Rightarrow> (js_error + 'c) \<times> options_arg" where
  "constructor super player options =
     (case options of
        OptUndefined \<Rightarrow> (Inl (TypeError ''Cannot set properties of undefined''), OptUndefined)
      | OptNull \<Rightarrow> (Inl (TypeError ''Cannot set properties of null''), OptNull)
      | OptBag b \<Rightarrow>
          (case raised_by (entry_mode b ''evented'') of
             Some e \<Rightarrow> (Inl e, OptBag b)
           | None \<Rightarrow>
               (let b' = b\<lparr>entries := (entries b)(''evented'' \<mapsto> Bool True)\<rparr>
                in (super player b', OptBag b'))))"

section \<open>saveAs\<close>

text \<open>
  \<^verbatim>\<open>name[Object.keys(name)[0]]\<close>: the name object is the list of its entries in the
  order \<^verbatim>\<open>Object.keys\<close> gives them. With no key the index is \<^verbatim>\<open>undefined\<close>, and the
  lookup is of the key \<^verbatim>\<open>'undefined'\<close>.
\<close>

definition first_value :: "(string \<times> string) list \<Rightarrow> string option" where
  "first_value name = map_of name (to_string (js_index (map fst name) 0))"

definition log :: "effect \<Rightarrow> world \<Rightarrow> world" where
  "log ev w = w\<lparr>trace := trace w @ [ev]\<rparr>"

text \<open>\<^verbatim>\<open>document.createElement('a')\<close>: a new anchor, not yet in the document.\<close>

definition createElement :: "string \<Rightarrow> world \<Rightarrow> nat outcome" where
  "createElement tag w =
     (let h = length (elements w)
      in Returned h
           (log (CreateElement tag h)
              (w\<lparr>elements := elements w @
                   [\<lparr>href = [], download = [], style = [], target = [], in_document = False\<rparr>]\<rparr>)))"

text \<open>
  \<^verbatim>\<open>URL.createObjectURL(data)\<close>: the platform raises a TypeError for an argument that
  is not a blob, and otherwise issues a new URL of the \<^verbatim>\<open>blob:\<close> scheme.
\<close>

definition createObjectURL :: "jsval \<Rightarrow> world \<Rightarrow> string outcome" where
  "createObjectURL data w =
     (if instanceof_Blob w data then
        (let u = ''blob:'' @ digits_of (issued_urls w)
         in Returned u (log (CreateObjectURL data u) (w\<lparr>issued_urls := Suc (issued_urls w)\<rparr>)))
      else Raised (TypeError ''Failed to execute createObjectURL'') w)"

definition update_element :: "nat \<Rightarrow> (anchor \<Rightarrow> anchor) \<Rightarrow> world \<Rightarrow> world" where
  "update_element h f w = w\<lparr>elements := (elements w)[h := f (elements w ! h)]\<rparr>"

definition saveAs :: "(string \<times> string) list \<Rightarrow> jsval \<Rightarrow> world \<Rightarrow> jsval outcome" where
  "saveAs name data0 w =
     (let data = (if data0 = Undefined then recordedData w else data0);
          fileName = first_value name
      in case msSaveOrOpenBlob w of
           Some f \<Rightarrow> Returned (f data fileName) (log (MsSaveOrOpenBlob data fileName) w)
         | None \<Rightarrow>
             (case msSaveBlob w of
                Some g \<Rightarrow> Returned (g data fileName) (log (MsSaveBlob data fileName) w)
              | None \<Rightarrow>
                  bind (createElement ''a'' w)
                    (\<lambda>hyperlink w1.
                       bind (createObjectURL data w1)
                         (\<lambda>u w2.
                            let w3 = update_element hyperlink (\<lambda>a. a\<lparr>href := u\<rparr>) w2;
                                w4 = update_element hyperlink (\<lambda>a. a\<lparr>download := to_string fileName\<rparr>) w3;
                                w5 = update_element hyperlink
                                       (\<lambda>a. a\<lparr>style := ''display:none;opacity:0;color:transparent;''\<rparr>) w4;
                                w6 = log (AppendChild hyperlink)
                                       (update_element hyperlink (\<lambda>a. a\<lparr>in_document := True\<rparr>) w5);
                                w7 = (if click_is_function w6 then log (Click hyperlink) w6
                                      else log (DispatchEvent hyperlink ''click'')
                                             (update_element hyperlink (\<lambda>a. a\<lparr>target := ''_blank''\<rparr>) w6))
                            in Returned Undefined
                                 (log (RevokeObjectURL (Str (href (elements w7 ! hyperlink)))) w7)))))"

section \<open>Example objects\<close>

text \<open>
  A blob as the platform makes it has no \<^verbatim>\<open>name\<close> or \<^verbatim>\<open>lastModified\<close> of its own,
  and an assignment adds the property. A file has both as getter-only properties of its
  prototype.
\<close>

definition blob_of :: "string \<Rightarrow> jsobj" where
  "blob_of ty = \<lparr>cls = BlobC, mime_type = ty, props = Map.empty, setter = (\<lambda>p. Writable)\<rparr>"

definition file_of :: "string \<Rightarrow> string \<Rightarrow> jsobj" where
  "file_of n ty =
     \<lparr>cls = FileC, mime_type = ty,
      props = [''name'' \<mapsto> Str n, ''lastModified'' \<mapsto> Num 0],
      setter = (\<lambda>p. if p = ''name'' \<or> p = ''lastModified'' then GetterOnly else Writable)\<rparr>"

text \<open>A blob on which a setter for \<^verbatim>\<open>name\<close> was defined that raises a RangeError.\<close>

definition guarded_blob :: "string \<Rightarrow> jsobj" where
  "guarded_blob ty =
     \<lparr>cls = BlobC, mime_type = ty, props = Map.empty,
      setter = (\<lambda>p. if p = ''name'' then SetterThrows (OtherError ''RangeError'') else Writable)\<rparr>"



text \<open>A fresh engine on a platform without the legacy save functions, holding one object.\<close>

definition world_of :: "jsobj \<Rightarrow> world" where
  "world_of ob =
     \<lparr>heap = [0 \<mapsto> ob], recordedData = Undefined, trace = [], elements = [],
      issued_urls = 0, msSaveOrOpenBlob = None, msSaveBlob = None, click_is_function = True\<rparr>"

section \<open>Facts about the string primitives\<close>

lemma js_split_not_Nil: "js_split c s \<noteq> []"
  by (induction s) (auto split: list.splits)

lemma js_split_absent: "c \<notin> set s \<Longrightarrow> js_split c s = [s]"
  by (induction s) auto

lemma js_split_first: "c \<notin> set a \<Longrightarrow> js_split c (a @ c # b) = a # js_split c b"
  by (induction a) auto

lemma hd_js_split: "hd (js_split c s) = takeWhile (\<lambda>x. x \<noteq> c) s"
  by (induction s) (auto split: list.splits simp: js_split_not_Nil)

lemma number_to_string_example: "number_to_string 1451180941326 = ''1451180941326''"
  by (simp add: number_to_string_def digits_of.simps digit_char_def)

lemma digit_char_inj:
  assumes "a < 10" and "b < 10" and "digit_char a = digit_char b"
  shows "a = b"
proof -
  have "distinct ''0123456789''"
    by simp
  moreover have "a < length ''0123456789''" "b < length ''0123456789''"
    using assms(1,2) by simp_all
  ultimately show ?thesis
    using assms(3) unfolding digit_char_def by (simp only: nth_eq_iff_index_eq)
qed

lemma digits_of_not_Nil: "digits_of n \<noteq> []"
  by (induction n rule: digits_of.induct) (subst digits_of.simps, simp)

text \<open>Two numbers with the same decimal rendering are the same number.\<close>

lemma digits_of_inj: "digits_of n = digits_of m \<Longrightarrow> n = m"
proof (induction n arbitrary: m rule: digits_of.induct)
  case (1 n)
  show ?case
  proof (cases "n < 10")
    case True
    note n = this
    show ?thesis
    proof (cases "m < 10")
      case True
      then show ?thesis
        using n "1.prems" digit_char_inj [of n m]
        by (subst (asm) digits_of.simps, subst (asm) (2) digits_of.simps) simp
    next
      case False
      then have "digits_of m = digits_of (m div 10) @ [digit_char (m mod 10)]"
        by (subst digits_of.simps) simp
      moreover have "digits_of n = [digit_char n]"
        using n by (subst digits_of.simps) simp
      ultimately show ?thesis
        using "1.prems" digits_of_not_Nil [of "m div 10"] by (cases "digits_of (m div 10)") auto
    qed
  next
    case False
    note n = this
    then have dn: "digits_of n = digits_of (n div 10) @ [digit_char (n mod 10)]"
      by (subst digits_of.simps) simp
    show ?thesis
    proof (cases "m < 10")
      case True
      then have "digits_of m = [digit_char m]"
        by (subst digits_of.simps) simp
      then show ?thesis
        using dn "1.prems" digits_of_not_Nil [of "n div 10"] by (cases "digits_of (n div 10)") auto
    next
      case False
      then have dm: "digits_of m = digits_of (m div 10) @ [digit_char (m mod 10)]"
        by (subst digits_of.simps) simp
      have eq: "digits_of (n div 10) = digits_of (m div 10)"
        "digit_char (n mod 10) = digit_char (m mod 10)"
        using dn dm "1.prems" by simp_all
      have "n div 10 = m div 10"
        using "1.IH" [OF n eq(1)] .
      moreover have "n mod 10 = m mod 10"
        using eq(2) digit_char_inj [of "n mod 10" "m mod 10"] by simp
      ultimately show ?thesis
        by (metis div_mult_mod_eq)
    qed
  qed
qed

lemma fileExtension_no_slash: "CHR ''/'' \<notin> set ty \<Longrightarrow> fileExtension ty = ''.undefined''"
  by (simp add: fileExtension_def js_split_absent js_index_def)

text \<open>
  With a slash, the extension is the dot and the text from the first slash up to the
  next slash or semicolon.
\<close>

lemma fileExtension_slash:
  assumes "CHR ''/'' \<notin> set a"
  shows "fileExtension (a @ CHR ''/'' # b) =
    CHR ''.'' # takeWhile (\<lambda>x. x \<noteq> CHR '';'' \<and> x \<noteq> CHR ''/'') b"
proof -
  obtain y ys where sp: "js_split CHR ''/'' b = y # ys"
    using js_split_not_Nil by (cases "js_split CHR ''/'' b") auto
  have y: "y = takeWhile (\<lambda>x. x \<noteq> CHR ''/'') b"
    using hd_js_split [of "CHR ''/''" b] sp by simp
  have idx: "js_index (js_split CHR ''/'' (a @ CHR ''/'' # b)) 1 = Some y"
    using assms sp by (simp add: js_split_first js_index_def)
  have tw: "takeWhile (\<lambda>x. x \<noteq> CHR '';'') y =
      takeWhile (\<lambda>x. x \<noteq> CHR '';'' \<and> x \<noteq> CHR ''/'') b"
    unfolding y by (induction b) auto
  show ?thesis
  proof (cases "CHR '';'' \<in> set y")
    case True
    then show ?thesis
      using idx tw by (simp add: fileExtension_def hd_js_split del: js_split.simps)
  next
    case False
    then have "takeWhile (\<lambda>x. x \<noteq> CHR '';'') y = y"
      by (auto simp: takeWhile_eq_all_conv)
    with False show ?thesis
      using idx tw by (simp add: fileExtension_def del: js_split.simps)
  qed
qed

section \<open>Facts about addFileInfo\<close>

lemma instanceof_Blob_heap: "heap w' = heap w \<Longrightarrow> instanceof_Blob w' v = instanceof_Blob w v"
  by (cases v) (simp_all add: instanceof_Blob_def)

lemma addFileInfo_escapes:
  assumes "heap w r = Some ob" and "cls ob = BlobC \<or> cls ob = FileC"
    and "addFileInfo now (Ref r) w = Raised e w'"
  shows "\<not> instanceof_TypeError e \<and>
    (\<exists>p\<in>{''lastModified'', ''lastModifiedDate'', ''name''}. raised_by (setter ob p) = Some e)"
  using assms
  by (auto simp: addFileInfo_def instanceof_Blob_def put_prop_def split: option.splits if_splits)

lemma addFileInfo_reraise_first:
  assumes "heap w r = Some ob" and "cls ob = BlobC \<or> cls ob = FileC"
    and "first_block_error ob = Some e" and "\<not> instanceof_TypeError e"
  shows "\<exists>w'. addFileInfo now (Ref r) w = Raised e w'"
  using assms
  by (auto simp: addFileInfo_def instanceof_Blob_def put_prop_def first_block_error_def
      split: option.splits if_splits)

lemma addFileInfo_reraise_name:
  assumes "heap w r = Some ob" and "cls ob = BlobC \<or> cls ob = FileC"
    and "\<forall>x. first_block_error ob = Some x \<longrightarrow> instanceof_TypeError x"
    and "raised_by (setter ob ''name'') = Some e" and "\<not> instanceof_TypeError e"
  shows "\<exists>w'. addFileInfo now (Ref r) w = Raised e w'"
  using assms
  by (auto simp: addFileInfo_def instanceof_Blob_def put_prop_def first_block_error_def
      split: option.splits if_splits)

lemma addFileInfo_returns:
  assumes "heap w r = Some ob" and "cls ob = BlobC \<or> cls ob = FileC"
    and "\<forall>x. first_block_error ob = Some x \<longrightarrow> instanceof_TypeError x"
    and "\<forall>x. raised_by (setter ob ''name'') = Some x \<longrightarrow> instanceof_TypeError x"
  shows "\<exists>w'. addFileInfo now (Ref r) w = Returned () w'"
  using assms
  by (auto simp: addFileInfo_def instanceof_Blob_def put_prop_def first_block_error_def
      split: option.splits if_splits)

lemma addFileInfo_name:
  assumes "heap w r = Some ob" and "cls ob = BlobC \<or> cls ob = FileC"
    and "\<forall>x. first_block_error ob = Some x \<longrightarrow> instanceof_TypeError x"
    and "setter ob ''name'' = Writable"
  shows "\<exists>w' ob'. addFileInfo now (Ref r) w = Returned () w' \<and> heap w' r = Some ob' \<and>
     props ob' ''name'' = Some (Str (number_to_string now @ fileExtension (mime_type ob))) \<and>
     (raised_by (setter ob ''lastModified'') = None \<longrightarrow> props ob' ''lastModified'' = Some (Num now))"
  using assms
  by (auto simp: addFileInfo_def instanceof_Blob_def put_prop_def first_block_error_def
      split: option.splits if_splits)

text \<open>addFileInfo writes properties and nothing else.\<close>

lemma addFileInfo_frame:
  assumes "addFileInfo now v w = Returned u w'"
  shows "recordedData w' = recordedData w \<and>
    (\<exists>ws. trace w' = trace w @ ws \<and> (\<forall>ev\<in>set ws. \<exists>r p x. ev = PropWrite r p x))"
  using assms
  by (auto simp: addFileInfo_def instanceof_Blob_def instanceof_File_def put_prop_def
      split: option.splits if_splits jsval.splits)

section \<open>Facts about onStopRecording and saveAs\<close>

lemma onStopRecording_returns:
  assumes "addFileInfo now data (w\<lparr>recordedData := data\<rparr>) = Returned () w1" and "data \<noteq> Undefined"
  shows "onStopRecording now data w =
     Returned () (w1\<lparr>trace := trace w1 @ [RevokeObjectURL data, Trigger ''recordComplete'']\<rparr>)"
proof -
  have "recordedData w1 = data"
    using addFileInfo_frame [OF assms(1)] by simp
  then show ?thesis
    using assms by (simp add: onStopRecording_def dispose_def trigger_def Let_def)
qed

lemma first_value_Cons: "first_value ((k, v) # rest) = Some v"
  by (simp add: first_value_def js_index_def)

lemma saveAs_hyperlink:
  assumes "msSaveOrOpenBlob w = None" and "msSaveBlob w = None" and "instanceof_Blob w data"
  shows "saveAs ((k, v) # rest) data w =
        Returned Undefined
          (w\<lparr>elements := elements w @
                [\<lparr>href = ''blob:'' @ digits_of (issued_urls w), download = v,
                  style = ''display:none;opacity:0;color:transparent;'',
                  target = (if click_is_function w then [] else ''_blank''), in_document = True\<rparr>],
             issued_urls := Suc (issued_urls w),
             trace := trace w @
                [CreateElement ''a'' (length (elements w)),
                 CreateObjectURL data (''blob:'' @ digits_of (issued_urls w)),
                 AppendChild (length (elements w)),
                 (if click_is_function w then Click (length (elements w))
                  else DispatchEvent (length (elements w)) ''click''),
                 RevokeObjectURL (Str (''blob:'' @ digits_of (issued_urls w)))]\<rparr>)"
proof -
  define w1 where "w1 = log (CreateElement ''a'' (length (elements w)))
      (w\<lparr>elements := elements w @
          [\<lparr>href = [], download = [], style = [], target = [], in_document = False\<rparr>]\<rparr>)"
  have d: "data \<noteq> Undefined"
    using assms(3) by (auto simp: instanceof_Blob_def)
  have ce: "createElement ''a'' w = Returned (length (elements w)) w1"
    by (simp add: createElement_def w1_def Let_def)
  have "heap w1 = heap w"
    by (simp add: w1_def log_def)
  then have "instanceof_Blob w1 data"
    using assms(3) instanceof_Blob_heap [of w1 w data] by simp
  then have co: "createObjectURL data w1 =
      Returned (''blob:'' @ digits_of (issued_urls w))
        (log (CreateObjectURL data (''blob:'' @ digits_of (issued_urls w)))
           (w1\<lparr>issued_urls := Suc (issued_urls w)\<rparr>))"
    by (simp add: createObjectURL_def Let_def w1_def log_def)
  have "saveAs ((k, v) # rest) data w =
      bind (createElement ''a'' w)
        (\<lambda>hyperlink w1.
           bind (createObjectURL data w1)
             (\<lambda>u w2.
                let w3 = update_element hyperlink (\<lambda>a. a\<lparr>href := u\<rparr>) w2;
                    w4 = update_element hyperlink (\<lambda>a. a\<lparr>download := v\<rparr>) w3;
                    w5 = update_element hyperlink
                           (\<lambda>a. a\<lparr>style := ''display:none;opacity:0;color:transparent;''\<rparr>) w4;
                    w6 = log (AppendChild hyperlink)
                           (update_element hyperlink (\<lambda>a. a\<lparr>in_document := True\<rparr>) w5);
                    w7 = (if click_is_function w6 then log (Click hyperlink) w6
                          else log (DispatchEvent hyperlink ''click'')
                                 (update_element hyperlink (\<lambda>a. a\<lparr>target := ''_blank''\<rparr>) w6))
                in Returned Undefined
                     (log (RevokeObjectURL (Str (href (elements w7 ! hyperlink)))) w7)))"
    using assms(1,2) d by (simp add: saveAs_def first_value_Cons)
  also have "\<dots> = Returned Undefined
          (w\<lparr>elements := elements w @
                [\<lparr>href = ''blob:'' @ digits_of (issued_urls w), download = v,
                  style = ''display:none;opacity:0;color:transparent;'',
                  target = (if click_is_function w then [] else ''_blank''), in_document = True\<rparr>],
             issued_urls := Suc (issued_urls w),
             trace := trace w @
                [CreateElement ''a'' (length (elements w)),
                 CreateObjectURL data (''blob:'' @ digits_of (issued_urls w)),
                 AppendChild (length (elements w)),
                 (if click_is_function w then Click (length (elements w))
                  else DispatchEvent (length (elements w)) ''click''),
                 RevokeObjectURL (Str (''blob:'' @ digits_of (issued_urls w)))]\<rparr>)"
    unfolding ce bind.simps co
    by (simp add: w1_def update_element_def log_def Let_def)
  finally show ?thesis .
qed

lemma saveAs_legacy_open:
  assumes "msSaveOrOpenBlob w = Some f"
  shows "saveAs name data w =
      Returned (f (if data = Undefined then recordedData w else data) (first_value name))
        (w\<lparr>trace := trace w @
            [MsSaveOrOpenBlob (if data = Undefined then recordedData w else data) (first_value name)]\<rparr>)"
  using assms by (simp add: saveAs_def log_def Let_def)

lemma saveAs_legacy_save:
  assumes "msSaveOrOpenBlob w = None" and "msSaveBlob w = Some g"
  shows "saveAs name data w =
      Returned (g (if data = Undefined then recordedData w else data) (first_value name))
        (w\<lparr>trace := trace w @
            [MsSaveBlob (if data = Undefined then recordedData w else data) (first_value name)]\<rparr>)"
  using assms by (simp add: saveAs_def log_def Let_def)

section \<open>onStopRecording: the order of effects\<close>

text \<open>
  Claim C1, as the code has it. For a blob on which no property assignment of
  addFileInfo raises an error other than a TypeError, \<open>onStopRecording\<close> stores the blob
  as \<open>recordedData\<close>, runs addFileInfo on the world that already holds it, then revokes
  the object URL of the blob (dispose), and last triggers \<open>recordComplete\<close>, once. The
  events between the old trace and the revocation are the property writes of addFileInfo.
  The call returns no result.
\<close>

theorem onStopRecording_effects:
  assumes "heap w r = Some ob" and "cls ob = BlobC \<or> cls ob = FileC"
    and "\<forall>x. first_block_error ob = Some x \<longrightarrow> instanceof_TypeError x"
    and "\<forall>x. raised_by (setter ob ''name'') = Some x \<longrightarrow> instanceof_TypeError x"
  shows "\<exists>w1 w'. addFileInfo now (Ref r) (w\<lparr>recordedData := Ref r\<rparr>) = Returned () w1
      \<and> onStopRecording now (Ref r) w = Returned () w'
      \<and> recordedData w' = Ref r
      \<and> heap w' = heap w1
      \<and> trace w' = trace w1 @ [RevokeObjectURL (Ref r), Trigger ''recordComplete'']
      \<and> (\<exists>ws. trace w1 = trace w @ ws \<and> (\<forall>ev\<in>set ws. \<exists>r' p x. ev = PropWrite r' p x))
      \<and> count_list (drop (length (trace w)) (trace w')) (Trigger ''recordComplete'') = 1"
proof -
  let ?w0 = "w\<lparr>recordedData := Ref r\<rparr>"
  have "heap ?w0 r = Some ob"
    using assms(1) by simp
  then obtain w1 where a: "addFileInfo now (Ref r) ?w0 = Returned () w1"
    using addFileInfo_returns [OF _ assms(2,3,4)] by blast
  define w' where "w' = w1\<lparr>trace := trace w1 @ [RevokeObjectURL (Ref r), Trigger ''recordComplete'']\<rparr>"
  have o: "onStopRecording now (Ref r) w = Returned () w'"
    using onStopRecording_returns [OF a] by (simp add: w'_def)
  from addFileInfo_frame [OF a] obtain ws where
    rd: "recordedData w1 = Ref r" and tr: "trace w1 = trace w @ ws"
    and ws: "\<forall>ev\<in>set ws. \<exists>r' p x. ev = PropWrite r' p x"
    by auto
  have "count_list ws (Trigger ''recordComplete'') = 0"
    using ws by (auto simp: count_list_0_iff)
  then have c: "count_list (drop (length (trace w)) (trace w')) (Trigger ''recordComplete'') = 1"
    by (simp add: w'_def tr)
  show ?thesis
    using a o rd tr ws c by (auto simp: w'_def)
qed

text \<open>On a plain blob of type \<open>audio/ogg\<close>, at the clock reading 1451180941326.\<close>

theorem onStopRecording_effects_witness:
  "\<exists>w'. onStopRecording 1451180941326 (Ref 0) (world_of (blob_of ''audio/ogg'')) = Returned () w'
     \<and> recordedData w' = Ref 0
     \<and> trace w' =
         [PropWrite 0 ''lastModified'' (Num 1451180941326),
          PropWrite 0 ''lastModifiedDate'' (DateV 1451180941326),
          PropWrite 0 ''name'' (Str ''1451180941326.ogg''),
          RevokeObjectURL (Ref 0),
          Trigger ''recordComplete'']"
proof -
  have a: "addFileInfo 1451180941326 (Ref 0) ((world_of (blob_of ''audio/ogg''))\<lparr>recordedData := Ref 0\<rparr>) =
      Returned () w1 \<Longrightarrow> trace w1 =
         [PropWrite 0 ''lastModified'' (Num 1451180941326),
          PropWrite 0 ''lastModifiedDate'' (DateV 1451180941326),
          PropWrite 0 ''name'' (Str ''1451180941326.ogg'')]" for w1
    by (auto simp: addFileInfo_def instanceof_Blob_def put_prop_def world_of_def blob_of_def
        fileExtension_def js_index_def number_to_string_example)
  show ?thesis
    using onStopRecording_effects [of "world_of (blob_of ''audio/ogg'')" 0 "blob_of ''audio/ogg''" 1451180941326] a
    by (auto simp: world_of_def blob_of_def first_block_error_def)
qed

text \<open>
  The claim as written, for every blob, fails: on a blob whose \<open>name\<close> setter raises a
  RangeError, addFileInfo re-raises it, and \<open>onStopRecording\<close> ends there, with the blob
  stored but with no revocation and no \<open>recordComplete\<close>.
\<close>

theorem onStopRecording_reraise_counterexample:
  "instanceof_Blob (world_of (guarded_blob ''audio/ogg'')) (Ref 0)
   \<and> (\<exists>w'. onStopRecording 1451180941326 (Ref 0) (world_of (guarded_blob ''audio/ogg'')) =
              Raised (OtherError ''RangeError'') w'
          \<and> recordedData w' = Ref 0
          \<and> RevokeObjectURL (Ref 0) \<notin> set (trace w')
          \<and> Trigger ''recordComplete'' \<notin> set (trace w'))"
  by (simp add: onStopRecording_def addFileInfo_def instanceof_Blob_def put_prop_def
      world_of_def guarded_blob_def Let_def)

section \<open>addFileInfo: the name and the extension\<close>

text \<open>
  Claim C2, as the code has it. For a blob or file of type \<open>audio/ogg\<close> whose \<open>name\<close>
  accepts the assignment, and on which the first try block raises nothing but a
  TypeError, addFileInfo sets \<open>name\<close> to the clock reading in decimal followed by
  \<open>.ogg\<close>; the same clock reading is what \<open>lastModified\<close> holds when that property accepts
  its assignment.
\<close>

theorem addFileInfo_ogg_name:
  assumes "heap w r = Some ob" and "cls ob = BlobC \<or> cls ob = FileC"
    and "mime_type ob = ''audio/ogg''"
    and "\<forall>x. first_block_error ob = Some x \<longrightarrow> instanceof_TypeError x"
    and "setter ob ''name'' = Writable"
  shows "\<exists>w' ob'. addFileInfo now (Ref r) w = Returned () w' \<and> heap w' r = Some ob'
      \<and> props ob' ''name'' = Some (Str (number_to_string now @ ''.ogg''))
      \<and> (raised_by (setter ob ''lastModified'') = None \<longrightarrow> props ob' ''lastModified'' = Some (Num now))"
proof -
  have "fileExtension (mime_type ob) = ''.ogg''"
    using assms(3) by (simp add: fileExtension_def js_index_def)
  then show ?thesis
    using addFileInfo_name [OF assms(1,2,4,5), of now] by simp
qed

theorem addFileInfo_ogg_name_witness:
  "\<exists>w' ob'. addFileInfo 1451180941326 (Ref 0) (world_of (blob_of ''audio/ogg'')) = Returned () w'
      \<and> heap w' 0 = Some ob'
      \<and> props ob' ''name'' = Some (Str ''1451180941326.ogg'')
      \<and> props ob' ''lastModified'' = Some (Num 1451180941326)"
  using addFileInfo_ogg_name [of "world_of (blob_of ''audio/ogg'')" 0 "blob_of ''audio/ogg''" 1451180941326]
  by (simp add: world_of_def blob_of_def number_to_string_example first_block_error_def)

text \<open>
  The claim as written, for every blob or file, fails on a file: its \<open>name\<close> is
  getter-only, the TypeError of the assignment is discarded, and the name stays what
  it was.
\<close>

theorem addFileInfo_ogg_file_counterexample:
  "instanceof_File (world_of (file_of ''take.ogg'' ''audio/ogg'')) (Ref 0)
   \<and> mime_type (file_of ''take.ogg'' ''audio/ogg'') = ''audio/ogg''
   \<and> (\<exists>w' ob'. addFileInfo 1451180941326 (Ref 0) (world_of (file_of ''take.ogg'' ''audio/ogg'')) = Returned () w'
         \<and> heap w' 0 = Some ob'
         \<and> props ob' ''name'' = Some (Str ''take.ogg'')
         \<and> props ob' ''name'' \<noteq> Some (Str ''1451180941326.ogg''))"
  by (simp add: addFileInfo_def instanceof_Blob_def instanceof_File_def put_prop_def
      world_of_def file_of_def)

text \<open>
  Claim C3. For every blob or file of the type \<open>video/webm;codecs=vp9,opus\<close> the
  extension addFileInfo derives is \<open>webm\<close> (the code keeps it with its leading dot),
  and where the name accepts the assignment it is \<open><timestamp>.webm\<close>. The rule is
  general: of a subtype followed by parameters, what comes after the first semicolon is
  gone, whatever the parameters hold (further semicolons included).
\<close>

theorem addFileInfo_webm_name:
  assumes "heap w r = Some ob" and "cls ob = BlobC \<or> cls ob = FileC"
    and "\<forall>x. first_block_error ob = Some x \<longrightarrow> instanceof_TypeError x"
    and "setter ob ''name'' = Writable"
  shows "\<exists>w' ob'. addFileInfo now (Ref r) w = Returned () w' \<and> heap w' r = Some ob'
      \<and> (mime_type ob = ''video/webm;codecs=vp9,opus'' \<longrightarrow>
            fileExtension (mime_type ob) = CHR ''.'' # ''webm''
            \<and> props ob' ''name'' = Some (Str (number_to_string now @ ''.webm'')))
      \<and> (\<forall>a s p. mime_type ob = a @ CHR ''/'' # s @ CHR '';'' # p
              \<and> CHR ''/'' \<notin> set a \<and> CHR ''/'' \<notin> set s \<and> CHR '';'' \<notin> set s \<longrightarrow>
            fileExtension (mime_type ob) = CHR ''.'' # s
            \<and> props ob' ''name'' = Some (Str (number_to_string now @ CHR ''.'' # s)))"
proof -
  obtain w' ob' where a: "addFileInfo now (Ref r) w = Returned () w'" "heap w' r = Some ob'"
    and n: "props ob' ''name'' = Some (Str (number_to_string now @ fileExtension (mime_type ob)))"
    using addFileInfo_name [OF assms, of now] by blast
  have g: "fileExtension (mime_type ob) = CHR ''.'' # s"
    if "mime_type ob = a @ CHR ''/'' # s @ CHR '';'' # p" and "CHR ''/'' \<notin> set a"
      and "CHR ''/'' \<notin> set s" and "CHR '';'' \<notin> set s" for a s p
  proof -
    have "\<forall>x\<in>set s. x \<noteq> CHR '';'' \<and> x \<noteq> CHR ''/''"
      using that(3,4) by auto
    then have "takeWhile (\<lambda>x. x \<noteq> CHR '';'' \<and> x \<noteq> CHR ''/'') (s @ CHR '';'' # p) = s"
      by (simp add: takeWhile_append2)
    then show ?thesis
      using that(1,2) fileExtension_slash [of a "s @ CHR '';'' # p"] by simp
  qed
  have "fileExtension (mime_type ob) = ''.webm''"
    if "mime_type ob = ''video/webm;codecs=vp9,opus''"
    using that g [of "''video''" "''webm''" "''codecs=vp9,opus''"] by simp
  then show ?thesis
    using a n g by auto
qed

text \<open>
  On a blob of the claim's type, and on one with two parameters, where a cut at the
  last semicolon would give another name.
\<close>

theorem addFileInfo_webm_name_witness:
  "(\<exists>w' ob'. addFileInfo 1451180941326 (Ref 0) (world_of (blob_of ''video/webm;codecs=vp9,opus'')) =
        Returned () w'
      \<and> heap w' 0 = Some ob' \<and> props ob' ''name'' = Some (Str ''1451180941326.webm''))
   \<and> fileExtension ''video/webm;codecs=vp9,opus'' = ''.webm''
   \<and> (\<exists>w' ob'. addFileInfo 1451180941326 (Ref 0) (world_of (blob_of ''video/webm;a;b'')) =
        Returned () w'
      \<and> heap w' 0 = Some ob' \<and> props ob' ''name'' = Some (Str ''1451180941326.webm''))
   \<and> fileExtension ''video/webm;a;b'' = ''.webm''"
proof -
  have s: "''video/webm;a;b'' = ''video'' @ CHR ''/'' # ''webm'' @ CHR '';'' # ''a;b''
      \<and> CHR ''/'' \<notin> set ''video'' \<and> CHR ''/'' \<notin> set ''webm'' \<and> CHR '';'' \<notin> set ''webm''"
    by simp
  obtain w1 ob1 where
    a1: "addFileInfo 1451180941326 (Ref 0) (world_of (blob_of ''video/webm;codecs=vp9,opus'')) =
        Returned () w1" "heap w1 0 = Some ob1"
    and n1: "fileExtension ''video/webm;codecs=vp9,opus'' = ''.webm''"
      "props ob1 ''name'' = Some (Str ''1451180941326.webm'')"
    using addFileInfo_webm_name [of "world_of (blob_of ''video/webm;codecs=vp9,opus'')" 0
        "blob_of ''video/webm;codecs=vp9,opus''" 1451180941326]
    by (auto simp: world_of_def blob_of_def number_to_string_example first_block_error_def)
  obtain w2 ob2 where
    a2: "addFileInfo 1451180941326 (Ref 0) (world_of (blob_of ''video/webm;a;b'')) = Returned () w2"
      "heap w2 0 = Some ob2"
    and g2: "\<forall>a s p. ''video/webm;a;b'' = a @ CHR ''/'' # s @ CHR '';'' # p
              \<and> CHR ''/'' \<notin> set a \<and> CHR ''/'' \<notin> set s \<and> CHR '';'' \<notin> set s \<longrightarrow>
            fileExtension ''video/webm;a;b'' = CHR ''.'' # s
            \<and> props ob2 ''name'' = Some (Str (''1451180941326'' @ CHR ''.'' # s))"
    using addFileInfo_webm_name [of "world_of (blob_of ''video/webm;a;b'')" 0
        "blob_of ''video/webm;a;b''" 1451180941326]
    by (auto simp: world_of_def blob_of_def number_to_string_example first_block_error_def)
  have n2: "fileExtension ''video/webm;a;b'' = CHR ''.'' # ''webm''
      \<and> props ob2 ''name'' = Some (Str (''1451180941326'' @ CHR ''.'' # ''webm''))"
    using g2 s by blast
  show ?thesis
    using a1 n1 a2 n2 by auto
qed

text \<open>
  Claim C4, as the code has it. Where the name accepts the assignment: a type with no
  slash gives the extension \<open>.undefined\<close> and the name \<open><timestamp>.undefined\<close>; a type
  whose subtype (the text after the first slash, up to the next slash or semicolon) is
  empty gives the lone dot and the name \<open><timestamp>.\<close>.
\<close>

theorem fileExtension_degenerate:
  assumes "heap w r = Some ob" and "cls ob = BlobC \<or> cls ob = FileC"
    and "\<forall>x. first_block_error ob = Some x \<longrightarrow> instanceof_TypeError x"
    and "setter ob ''name'' = Writable"
  shows "\<exists>w' ob'. addFileInfo now (Ref r) w = Returned () w' \<and> heap w' r = Some ob'
      \<and> (CHR ''/'' \<notin> set (mime_type ob) \<longrightarrow>
            fileExtension (mime_type ob) = ''.undefined''
            \<and> props ob' ''name'' = Some (Str (number_to_string now @ ''.undefined'')))
      \<and> ((\<exists>a b. mime_type ob = a @ CHR ''/'' # b \<and> CHR ''/'' \<notin> set a
              \<and> takeWhile (\<lambda>x. x \<noteq> CHR '';'' \<and> x \<noteq> CHR ''/'') b = []) \<longrightarrow>
            fileExtension (mime_type ob) = ''.''
            \<and> props ob' ''name'' = Some (Str (number_to_string now @ ''.'')))"
proof -
  obtain w' ob' where a: "addFileInfo now (Ref r) w = Returned () w'" "heap w' r = Some ob'"
    and n: "props ob' ''name'' = Some (Str (number_to_string now @ fileExtension (mime_type ob)))"
    using addFileInfo_name [OF assms, of now] by blast
  have "fileExtension (mime_type ob) = ''.''"
    if "mime_type ob = a @ CHR ''/'' # b" and "CHR ''/'' \<notin> set a"
      and "takeWhile (\<lambda>x. x \<noteq> CHR '';'' \<and> x \<noteq> CHR ''/'') b = []" for a b
    using that fileExtension_slash [of a b] by simp
  then show ?thesis
    using a n fileExtension_no_slash [of "mime_type ob"] by auto
qed

theorem fileExtension_degenerate_witness:
  "(\<exists>w' ob'. addFileInfo 1451180941326 (Ref 0) (world_of (blob_of ''audio/'')) = Returned () w'
      \<and> heap w' 0 = Some ob' \<and> props ob' ''name'' = Some (Str ''1451180941326.''))
   \<and> fileExtension ''audio/'' = ''.''
   \<and> (\<exists>w' ob'. addFileInfo 1451180941326 (Ref 0) (world_of (blob_of ''audio'')) = Returned () w'
      \<and> heap w' 0 = Some ob' \<and> props ob' ''name'' = Some (Str ''1451180941326.undefined''))
   \<and> fileExtension ''audio'' = ''.undefined''"
proof -
  have s: "\<exists>a b. ''audio/'' = a @ CHR ''/'' # b \<and> CHR ''/'' \<notin> set a
      \<and> takeWhile (\<lambda>x. x \<noteq> CHR '';'' \<and> x \<noteq> CHR ''/'') b = []"
    by (rule exI [of _ "''audio''"], rule exI [of _ "[]"]) simp
  show ?thesis
    using fileExtension_degenerate [of "world_of (blob_of ''audio/'')" 0 "blob_of ''audio/''" 1451180941326]
      fileExtension_degenerate [of "world_of (blob_of ''audio'')" 0 "blob_of ''audio''" 1451180941326] s
    by (auto simp: world_of_def blob_of_def number_to_string_example first_block_error_def)
qed

text \<open>
  The claim as written fails for a type without a slash: a blob made without a type
  has the empty string as its type, the second piece of the split is \<^verbatim>\<open>undefined\<close>,
  and the name ends in \<open>.undefined\<close>, not in a lone dot.
\<close>

theorem fileExtension_undefined_counterexample:
  "CHR ''/'' \<notin> set ''''
   \<and> instanceof_Blob (world_of (blob_of '''')) (Ref 0)
   \<and> fileExtension '''' = ''.undefined''
   \<and> fileExtension '''' \<noteq> ''.''
   \<and> (\<exists>w' ob'. addFileInfo 1451180941326 (Ref 0) (world_of (blob_of '''')) = Returned () w'
         \<and> heap w' 0 = Some ob'
         \<and> props ob' ''name'' = Some (Str ''1451180941326.undefined'')
         \<and> props ob' ''name'' \<noteq> Some (Str ''1451180941326.''))"
  by (simp add: addFileInfo_def instanceof_Blob_def put_prop_def world_of_def blob_of_def
      fileExtension_def js_index_def number_to_string_example)

section \<open>The constructor and the options\<close>




text \<open>
  Claim C10. With \<^verbatim>\<open>undefined\<close> or \<^verbatim>\<open>null\<close> for the options the assignment raises a
  TypeError: the result does not depend on the base constructor, which is not reached,
  and nothing stands in for the missing bag.
\<close>

theorem constructor_no_options:
  "constructor super player OptUndefined =
      (Inl (TypeError ''Cannot set properties of undefined''), OptUndefined)
   \<and> constructor super player OptNull =
      (Inl (TypeError ''Cannot set properties of null''), OptNull)
   \<and> (case fst (constructor super player OptUndefined) of Inl e \<Rightarrow> instanceof_TypeError e | Inr c \<Rightarrow> False)
   \<and> (case fst (constructor super player OptNull) of Inl e \<Rightarrow> instanceof_TypeError e | Inr c \<Rightarrow> False)"
  by (simp add: constructor_def)

section \<open>addFileInfo on other inputs, and its errors\<close>

text \<open>
  Claim C6. On an input that is neither a blob nor a file addFileInfo returns, and the
  world it returns is the world it was given: no property of any object is written.
\<close>

theorem addFileInfo_not_blob:
  "\<not> instanceof_Blob w fileObj \<Longrightarrow> \<not> instanceof_File w fileObj \<Longrightarrow>
     addFileInfo now fileObj w = Returned () w"
  by (simp add: addFileInfo_def)

text \<open>A string, and a plain object that has a \<open>type\<close> but is no blob.\<close>

theorem addFileInfo_not_blob_witness:
  "addFileInfo 1451180941326 (Str ''audio/ogg'') (world_of (blob_of ''audio/ogg'')) =
      Returned () (world_of (blob_of ''audio/ogg''))
   \<and> addFileInfo 1451180941326 (Ref 0) (world_of ((blob_of ''audio/ogg'')\<lparr>cls := PlainC\<rparr>)) =
      Returned () (world_of ((blob_of ''audio/ogg'')\<lparr>cls := PlainC\<rparr>))"
  using addFileInfo_not_blob [of "world_of (blob_of ''audio/ogg'')" "Str ''audio/ogg''" 1451180941326]
    addFileInfo_not_blob [of "world_of ((blob_of ''audio/ogg'')\<lparr>cls := PlainC\<rparr>)" "Ref 0" 1451180941326]
  by (simp add: instanceof_Blob_def instanceof_File_def world_of_def blob_of_def)

text \<open>
  Claim C8. On a blob or file: an error other than a TypeError raised in the first try
  block, or by the assignment of the name when that is reached, is what addFileInfo
  raises; when every error raised is a TypeError, addFileInfo returns; after a TypeError
  in the first block the name is still assigned; and an error that leaves addFileInfo
  is never a TypeError and is the very error a setter raised.
\<close>

theorem addFileInfo_error_handling:
  assumes "heap w r = Some ob" and "cls ob = BlobC \<or> cls ob = FileC"
  shows "(\<forall>e. first_block_error ob = Some e \<and> \<not> instanceof_TypeError e \<longrightarrow>
            (\<exists>w'. addFileInfo now (Ref r) w = Raised e w'))
     \<and> (\<forall>e. (\<forall>x. first_block_error ob = Some x \<longrightarrow> instanceof_TypeError x)
            \<and> raised_by (setter ob ''name'') = Some e \<and> \<not> instanceof_TypeError e \<longrightarrow>
            (\<exists>w'. addFileInfo now (Ref r) w = Raised e w'))
     \<and> ((\<forall>x. first_block_error ob = Some x \<longrightarrow> instanceof_TypeError x)
            \<and> (\<forall>x. raised_by (setter ob ''name'') = Some x \<longrightarrow> instanceof_TypeError x) \<longrightarrow>
            (\<exists>w'. addFileInfo now (Ref r) w = Returned () w'))
     \<and> ((\<exists>x. first_block_error ob = Some x \<and> instanceof_TypeError x)
            \<and> setter ob ''name'' = Writable \<longrightarrow>
            (\<exists>w' ob'. addFileInfo now (Ref r) w = Returned () w' \<and> heap w' r = Some ob'
               \<and> props ob' ''name'' = Some (Str (number_to_string now @ fileExtension (mime_type ob)))))
     \<and> (\<forall>e w'. addFileInfo now (Ref r) w = Raised e w' \<longrightarrow>
            \<not> instanceof_TypeError e
            \<and> (\<exists>p\<in>{''lastModified'', ''lastModifiedDate'', ''name''}. raised_by (setter ob p) = Some e))"
proof (intro conjI allI impI)
  fix e
  assume "first_block_error ob = Some e \<and> \<not> instanceof_TypeError e"
  then show "\<exists>w'. addFileInfo now (Ref r) w = Raised e w'"
    using addFileInfo_reraise_first [OF assms] by blast
next
  fix e
  assume "(\<forall>x. first_block_error ob = Some x \<longrightarrow> instanceof_TypeError x)
    \<and> raised_by (setter ob ''name'') = Some e \<and> \<not> instanceof_TypeError e"
  then show "\<exists>w'. addFileInfo now (Ref r) w = Raised e w'"
    using addFileInfo_reraise_name [OF assms] by blast
next
  assume "(\<forall>x. first_block_error ob = Some x \<longrightarrow> instanceof_TypeError x)
    \<and> (\<forall>x. raised_by (setter ob ''name'') = Some x \<longrightarrow> instanceof_TypeError x)"
  then show "\<exists>w'. addFileInfo now (Ref r) w = Returned () w'"
    using addFileInfo_returns [OF assms] by blast
next
  assume h: "(\<exists>x. first_block_error ob = Some x \<and> instanceof_TypeError x) \<and> setter ob ''name'' = Writable"
  then have "\<forall>x. first_block_error ob = Some x \<longrightarrow> instanceof_TypeError x"
    by auto
  then show "\<exists>w' ob'. addFileInfo now (Ref r) w = Returned () w' \<and> heap w' r = Some ob'
     \<and> props ob' ''name'' = Some (Str (number_to_string now @ fileExtension (mime_type ob)))"
    using addFileInfo_name [OF assms, of now] h by blast
next
  fix e w'
  assume "addFileInfo now (Ref r) w = Raised e w'"
  then show "\<not> instanceof_TypeError e"
    using addFileInfo_escapes [OF assms] by blast
next
  fix e w'
  assume "addFileInfo now (Ref r) w = Raised e w'"
  then show "\<exists>p\<in>{''lastModified'', ''lastModifiedDate'', ''name''}. raised_by (setter ob p) = Some e"
    using addFileInfo_escapes [OF assms] by blast
qed

text \<open>
  A blob whose \<open>name\<close> setter raises a RangeError, a file, and a blob whose
  \<open>lastModified\<close> is getter-only while its name can be written.
\<close>

theorem addFileInfo_error_handling_witness:
  "(\<exists>w'. addFileInfo 1451180941326 (Ref 0) (world_of (guarded_blob ''audio/ogg'')) =
            Raised (OtherError ''RangeError'') w')
   \<and> (\<exists>w'. addFileInfo 1451180941326 (Ref 0) (world_of (file_of ''take.ogg'' ''audio/ogg'')) =
            Returned () w')
   \<and> (\<exists>w' ob'. addFileInfo 1451180941326 (Ref 0)
          (world_of ((blob_of ''audio/ogg'')
             \<lparr>setter := (\<lambda>p. if p = ''lastModified'' then GetterOnly else Writable)\<rparr>)) = Returned () w'
        \<and> heap w' 0 = Some ob'
        \<and> props ob' ''name'' = Some (Str ''1451180941326.ogg''))"
proof -
  have x: "fileExtension ''audio/ogg'' = ''.ogg''"
    by (simp add: fileExtension_def js_index_def)
  show ?thesis
    using addFileInfo_error_handling [of "world_of (guarded_blob ''audio/ogg'')" 0
        "guarded_blob ''audio/ogg''" 1451180941326]
      addFileInfo_error_handling [of "world_of (file_of ''take.ogg'' ''audio/ogg'')" 0
        "file_of ''take.ogg'' ''audio/ogg''" 1451180941326]
      addFileInfo_error_handling [of "world_of ((blob_of ''audio/ogg'')
             \<lparr>setter := (\<lambda>p. if p = ''lastModified'' then GetterOnly else Writable)\<rparr>)" 0
        "(blob_of ''audio/ogg'')\<lparr>setter := (\<lambda>p. if p = ''lastModified'' then GetterOnly else Writable)\<rparr>"
        1451180941326]
    by (simp add: world_of_def guarded_blob_def file_of_def blob_of_def first_block_error_def
        number_to_string_example x)
qed

section \<open>dispose\<close>

text \<open>
  Claim C7. With \<open>recordedData\<close> undefined, dispose returns and the world is the one it
  was given: the trace has no revocation added and the engine is unchanged.
\<close>

theorem dispose_undefined_noop:
  "recordedData w = Undefined \<Longrightarrow> dispose w = Returned () w"
  by (simp add: dispose_def)

theorem dispose_undefined_noop_witness:
  "recordedData (world_of (blob_of ''audio/ogg'')) = Undefined
   \<and> dispose (world_of (blob_of ''audio/ogg'')) = Returned () (world_of (blob_of ''audio/ogg''))"
  using dispose_undefined_noop [of "world_of (blob_of ''audio/ogg'')"]
  by (simp add: world_of_def)

section \<open>saveAs\<close>

text \<open>
  Claim C9. Without the legacy save functions, \<open>saveAs\<close> on a blob creates one anchor,
  whose \<open>download\<close> is the first value of the name object and whose \<open>href\<close> is the object
  URL created in this call, which is not empty and differs from every URL issued
  before; the anchor is put in the document and clicked, and the last effect of the call
  is the revocation of that URL. With a legacy
  save function, \<open>saveAs\<close> calls it with the data and the file name and returns what it
  returns; no element is created.
\<close>

theorem saveAs_anchor_or_legacy:
  "(msSaveOrOpenBlob w = None \<and> msSaveBlob w = None \<and> instanceof_Blob w data \<longrightarrow>
      (\<exists>u w'. saveAs ((k, v) # rest) data w = Returned Undefined w'
         \<and> u \<noteq> []
         \<and> (\<forall>n. n < issued_urls w \<longrightarrow> u \<noteq> ''blob:'' @ digits_of n)
         \<and> issued_urls w' = Suc (issued_urls w)
         \<and> elements w' = elements w @
              [\<lparr>href = u, download = v, style = ''display:none;opacity:0;color:transparent;'',
                target = (if click_is_function w then [] else ''_blank''), in_document = True\<rparr>]
         \<and> trace w' = trace w @
              [CreateElement ''a'' (length (elements w)),
               CreateObjectURL data u,
               AppendChild (length (elements w)),
               (if click_is_function w then Click (length (elements w))
                else DispatchEvent (length (elements w)) ''click''),
               RevokeObjectURL (Str u)]))
   \<and> (\<forall>f. msSaveOrOpenBlob w = Some f \<longrightarrow>
        (\<exists>w'. saveAs name data w =
            Returned (f (if data = Undefined then recordedData w else data) (first_value name)) w'
          \<and> elements w' = elements w
          \<and> trace w' = trace w @
              [MsSaveOrOpenBlob (if data = Undefined then recordedData w else data) (first_value name)]))
   \<and> (\<forall>g. msSaveOrOpenBlob w = None \<and> msSaveBlob w = Some g \<longrightarrow>
        (\<exists>w'. saveAs name data w =
            Returned (g (if data = Undefined then recordedData w else data) (first_value name)) w'
          \<and> elements w' = elements w
          \<and> trace w' = trace w @
              [MsSaveBlob (if data = Undefined then recordedData w else data) (first_value name)]))"
proof (intro conjI allI impI)
  assume "msSaveOrOpenBlob w = None \<and> msSaveBlob w = None \<and> instanceof_Blob w data"
  then have "saveAs ((k, v) # rest) data w =
        Returned Undefined
          (w\<lparr>elements := elements w @
                [\<lparr>href = ''blob:'' @ digits_of (issued_urls w), download = v,
                  style = ''display:none;opacity:0;color:transparent;'',
                  target = (if click_is_function w then [] else ''_blank''), in_document = True\<rparr>],
             issued_urls := Suc (issued_urls w),
             trace := trace w @
                [CreateElement ''a'' (length (elements w)),
                 CreateObjectURL data (''blob:'' @ digits_of (issued_urls w)),
                 AppendChild (length (elements w)),
                 (if click_is_function w then Click (length (elements w))
                  else DispatchEvent (length (elements w)) ''click''),
                 RevokeObjectURL (Str (''blob:'' @ digits_of (issued_urls w)))]\<rparr>)"
    using saveAs_hyperlink by blast
  moreover have "''blob:'' @ digits_of (issued_urls w) \<noteq> ''blob:'' @ digits_of n"
    if "n < issued_urls w" for n
    using that digits_of_inj [of "issued_urls w" n] by auto
  ultimately show "\<exists>u w'. saveAs ((k, v) # rest) data w = Returned Undefined w'
         \<and> u \<noteq> []
         \<and> (\<forall>n. n < issued_urls w \<longrightarrow> u \<noteq> ''blob:'' @ digits_of n)
         \<and> issued_urls w' = Suc (issued_urls w)
         \<and> elements w' = elements w @
              [\<lparr>href = u, download = v, style = ''display:none;opacity:0;color:transparent;'',
                target = (if click_is_function w then [] else ''_blank''), in_document = True\<rparr>]
         \<and> trace w' = trace w @
              [CreateElement ''a'' (length (elements w)),
               CreateObjectURL data u,
               AppendChild (length (elements w)),
               (if click_is_function w then Click (length (elements w))
                else DispatchEvent (length (elements w)) ''click''),
               RevokeObjectURL (Str u)]"
    by (intro exI [of _ "''blob:'' @ digits_of (issued_urls w)"]) simp
next
  fix f
  assume "msSaveOrOpenBlob w = Some f"
  then show "\<exists>w'. saveAs name data w =
            Returned (f (if data = Undefined then recordedData w else data) (first_value name)) w'
          \<and> elements w' = elements w
          \<and> trace w' = trace w @
              [MsSaveOrOpenBlob (if data = Undefined then recordedData w else data) (first_value name)]"
    using saveAs_legacy_open [of w f name data] by simp
next
  fix g
  assume "msSaveOrOpenBlob w = None \<and> msSaveBlob w = Some g"
  then show "\<exists>w'. saveAs name data w =
            Returned (g (if data = Undefined then recordedData w else data) (first_value name)) w'
          \<and> elements w' = elements w
          \<and> trace w' = trace w @
              [MsSaveBlob (if data = Undefined then recordedData w else data) (first_value name)]"
    using saveAs_legacy_save [of w g name data] by simp
qed

text \<open>
  \<open>saveAs({video: 'clip'}, blob)\<close> on a platform without the legacy functions, then
  with \<open>msSaveOrOpenBlob\<close>, then with \<open>msSaveBlob\<close> alone.
\<close>

theorem saveAs_anchor_or_legacy_witness:
  "(\<exists>w'. saveAs [(''video'', ''clip'')] (Ref 0) (world_of (blob_of ''video/webm'')) = Returned Undefined w'
      \<and> map download (elements w') = [''clip'']
      \<and> trace w' =
          [CreateElement ''a'' 0, CreateObjectURL (Ref 0) (href (elements w' ! 0)), AppendChild 0,
           Click 0, RevokeObjectURL (Str (href (elements w' ! 0)))])
   \<and> (\<exists>w'. saveAs [(''video'', ''clip'')] (Ref 0)
           ((world_of (blob_of ''video/webm''))\<lparr>msSaveOrOpenBlob := Some (\<lambda>d n. Bool True)\<rparr>) =
         Returned (Bool True) w'
      \<and> elements w' = []
      \<and> trace w' = [MsSaveOrOpenBlob (Ref 0) (Some ''clip'')])
   \<and> (\<exists>w'. saveAs [(''video'', ''clip'')] (Ref 0)
           ((world_of (blob_of ''video/webm''))\<lparr>msSaveBlob := Some (\<lambda>d n. Bool False)\<rparr>) =
         Returned (Bool False) w'
      \<and> elements w' = []
      \<and> trace w' = [MsSaveBlob (Ref 0) (Some ''clip'')])"
  using saveAs_anchor_or_legacy [of "world_of (blob_of ''video/webm'')" "Ref 0" "''video''" "''clip''" "[]"
      "[(''video'', ''clip'')]"]
    saveAs_anchor_or_legacy [of
      "(world_of (blob_of ''video/webm''))\<lparr>msSaveOrOpenBlob := Some (\<lambda>d n. Bool True)\<rparr>"
      "Ref 0" "''video''" "''clip''" "[]" "[(''video'', ''clip'')]"]
    saveAs_anchor_or_legacy [of
      "(world_of (blob_of ''video/webm''))\<lparr>msSaveBlob := Some (\<lambda>d n. Bool False)\<rparr>"
      "Ref 0" "''video''" "''clip''" "[]" "[(''video'', ''clip'')]"]
  by (auto simp: world_of_def blob_of_def instanceof_Blob_def first_value_def js_index_def)

end
